theory Spec2Isabelle
  imports Complex_Main "HOL-Library.AList" "HOL-Library.Product_Lexorder"
    "HOL-Library.Code_Target_Nat"
begin

section \<open>Data model: cells, columns, tables\<close>

text \<open>
  The air-quality pipeline of \<^verbatim>\<open>analysis.py\<close> works on one pandas table. A table is
  modelled as its number of rows and the list of its columns in order, every column a
  name with its cells; a cell is one of the values such a table holds in this program.
  Floating-point cells carry the rational number they denote; the rounding that a
  parser performs is part of the library function that produces the number.
  Characters stand for the code points below 256.
\<close>

record time_of_day =
  hour :: nat
  minute :: nat
  second :: nat
  microsecond :: nat

record timestamp =
  year :: nat
  month :: nat
  day :: nat
  clock :: time_of_day

datatype cell =
    NaN
  | NaT
  | IntC int
  | FloatC rat
  | StrC string
  | TsC timestamp
  | TimeC time_of_day

record dataframe =
  n_rows :: nat
  cols :: "(string \<times> cell list) list"

datatype py_exc =
    FileNotFoundError string
  | KeyError string
  | TypeError string
  | ValueError string
  | ParserError nat nat nat
  | EmptyDataError string
  | OtherException string
  | BaseOnly string

text \<open>\<^verbatim>\<open>isna\<close> / \<^verbatim>\<open>notna\<close> of one cell.\<close>

fun isna :: "cell \<Rightarrow> bool" where
  "isna NaN = True"
| "isna NaT = True"
| "isna _ = False"

definition notna :: "cell \<Rightarrow> bool" where
  "notna c = (\<not> isna c)"

text \<open>\<^verbatim>\<open>col in df.columns\<close>, \<^verbatim>\<open>df[col]\<close> and \<^verbatim>\<open>df[col] = values\<close>: an assignment
  replaces the column where it stands, or appends a new last column.\<close>

definition has_col :: "string \<Rightarrow> dataframe \<Rightarrow> bool" where
  "has_col name df = (name \<in> set (map fst (cols df)))"

definition get_col :: "string \<Rightarrow> dataframe \<Rightarrow> cell list option" where
  "get_col name df = map_of (cols df) name"

definition set_col :: "string \<Rightarrow> cell list \<Rightarrow> dataframe \<Rightarrow> dataframe" where
  "set_col name xs df = df\<lparr>cols := AList.update name xs (cols df)\<rparr>"

definition wf_frame :: "dataframe \<Rightarrow> bool" where
  "wf_frame df = (list_all (\<lambda>p. length (snd p) = n_rows df) (cols df))"

text \<open>The entries of a column at the rows where a mask holds, in order.\<close>

definition select_cells :: "bool list \<Rightarrow> 'a list \<Rightarrow> 'a list" where
  "select_cells msk xs = map snd (filter fst (zip msk xs))"

section \<open>Text helpers\<close>

text \<open>\<^verbatim>\<open>str.strip()\<close> removes white space at both ends; \<^verbatim>\<open>str.replace(a, b)\<close> is only
  ever called with one-character arguments in this program.\<close>

definition py_isspace :: "char \<Rightarrow> bool" where
  "py_isspace c = (c \<in> set [CHR 0x09, CHR 0x0A, CHR 0x0B, CHR 0x0C, CHR 0x0D,
                            CHR 0x1C, CHR 0x1D, CHR 0x1E, CHR 0x1F, CHR 0x20,
                            CHR 0x85, CHR 0xA0])"

definition str_strip :: "string \<Rightarrow> string" where
  "str_strip s = rev (dropWhile py_isspace (rev (dropWhile py_isspace s)))"

definition str_replace :: "char \<Rightarrow> char \<Rightarrow> string \<Rightarrow> string" where
  "str_replace a b s = map (\<lambda>c. if c = a then b else c) s"

definition digit_char :: "nat \<Rightarrow> char" where
  "digit_char n = ''0123456789'' ! (n mod 10)"

definition digit_val :: "char \<Rightarrow> nat option" where
  "digit_val c = map_of [(CHR ''0'', 0), (CHR ''1'', 1), (CHR ''2'', 2), (CHR ''3'', 3),
                         (CHR ''4'', 4), (CHR ''5'', 5), (CHR ''6'', 6), (CHR ''7'', 7),
                         (CHR ''8'', 8), (CHR ''9'', 9)] c"

fun str_nat_fuel :: "nat \<Rightarrow> nat \<Rightarrow> string" where
  "str_nat_fuel 0 n = [digit_char n]"
| "str_nat_fuel (Suc k) n =
     (if n < 10 then [digit_char n] else str_nat_fuel k (n div 10) @ [digit_char n])"

definition str_nat :: "nat \<Rightarrow> string" where
  "str_nat n = str_nat_fuel n n"

definition str_int :: "int \<Rightarrow> string" where
  "str_int i = (if i < 0 then CHR ''-'' # str_nat (nat (- i)) else str_nat (nat i))"

definition pad2 :: "nat \<Rightarrow> string" where
  "pad2 n = [digit_char (n div 10), digit_char n]"

definition pad4 :: "nat \<Rightarrow> string" where
  "pad4 n = [digit_char (n div 1000), digit_char (n div 100), digit_char (n div 10), digit_char n]"

definition pad6 :: "nat \<Rightarrow> string" where
  "pad6 n = [digit_char (n div 100000), digit_char (n div 10000), digit_char (n div 1000),
             digit_char (n div 100), digit_char (n div 10), digit_char n]"

text \<open>\<^verbatim>\<open>str\<close> of a \<^verbatim>\<open>datetime.time\<close> is its ISO form, and \<^verbatim>\<open>strftime('%Y-%m-%d')\<close> renders
  the date part of a timestamp.\<close>

definition time_str :: "time_of_day \<Rightarrow> string" where
  "time_str t =
     pad2 (hour t) @ '':'' @ pad2 (minute t) @ '':'' @ pad2 (second t) @
     (if microsecond t = 0 then [] else ''.'' @ pad6 (microsecond t))"

definition strftime_ymd :: "timestamp \<Rightarrow> string" where
  "strftime_ymd ts = pad4 (year ts) @ ''-'' @ pad2 (month ts) @ ''-'' @ pad2 (day ts)"

section \<open>The pandas functions the pipeline calls\<close>

text \<open>
  The parsers and formatters of pandas are not part of this program; the pipeline is
  verified for every behaviour of them. A call that infers a format is made on a whole
  column, and its result for one row may depend on the other rows:
  \<^item> \<open>to_datetime col i\<close>: the result at row \<open>i\<close> of the one call
    \<^verbatim>\<open>pd.to_datetime(col, errors='coerce', infer_datetime_format=True)\<close>, \<open>None\<close> for
    \<^verbatim>\<open>NaT\<close>;
  \<^item> \<open>strptime f s\<close>: \<^verbatim>\<open>pd.to_datetime(x, format=f, errors='coerce')\<close> for one text;
    with a format given every text is matched against it on its own;
  \<^item> \<open>to_datetime_scalar\<close>: \<^verbatim>\<open>pd.to_datetime(s)\<close> of one string, which raises or
    returns a timestamp or \<^verbatim>\<open>NaT\<close>;
  \<^item> \<open>num_parse\<close>: the number one text denotes for \<^verbatim>\<open>pd.to_numeric\<close>, an integer or a
    float, \<open>None\<close> when it denotes none (or \<^verbatim>\<open>nan\<close>);
  \<^item> \<open>float_str\<close> and \<open>timestamp_str\<close>: \<^verbatim>\<open>astype(str)\<close> of a float and of a timestamp;
  \<^item> \<open>numeric_dtype\<close>: whether \<^verbatim>\<open>select_dtypes(include=[np.number])\<close> keeps a column;
  \<^item> \<open>series_min\<close>, \<open>series_max\<close>, \<open>round2\<close>, \<open>groupby_mean\<close>: the reductions
    used by the summary functions;
  \<^item> \<open>csv_records\<close>: the records of a file's text, each split into its fields, the
    header first; \<open>record_line text k\<close>: the line of the text that holds its record
    number \<open>k\<close>, the header being number 1; \<open>build_frame\<close>: the table
    \<^verbatim>\<open>pd.read_csv\<close> builds from a header and records that passed the field count.
\<close>

datatype num_lit = IntLit int | FloatLit rat

record pandas =
  to_datetime :: "cell list \<Rightarrow> nat \<Rightarrow> timestamp option"
  strptime :: "string \<Rightarrow> string \<Rightarrow> timestamp option"
  to_datetime_scalar :: "string \<Rightarrow> py_exc + timestamp option"
  num_parse :: "string \<Rightarrow> num_lit option"
  float_str :: "rat \<Rightarrow> string"
  timestamp_str :: "timestamp \<Rightarrow> string"
  numeric_dtype :: "cell list \<Rightarrow> bool"
  series_min :: "cell list \<Rightarrow> py_exc + cell"
  series_max :: "cell list \<Rightarrow> py_exc + cell"
  round2 :: "rat \<Rightarrow> rat"
  groupby_mean :: "string \<Rightarrow> string list \<Rightarrow> dataframe \<Rightarrow> py_exc + dataframe"
  csv_records :: "string \<Rightarrow> string list list"
  record_line :: "string \<Rightarrow> nat \<Rightarrow> nat"
  build_frame :: "string list \<Rightarrow> string list list \<Rightarrow> py_exc + dataframe"

text \<open>The column a format-inferring call returns.\<close>

definition to_datetime_col :: "pandas \<Rightarrow> cell list \<Rightarrow> timestamp option list" where
  "to_datetime_col lib xs = map (to_datetime lib xs) [0..<length xs]"

text \<open>\<^verbatim>\<open>astype(str)\<close> of one cell.\<close>

fun astype_str :: "pandas \<Rightarrow> cell \<Rightarrow> string" where
  "astype_str lib (StrC s) = s"
| "astype_str lib NaN = ''nan''"
| "astype_str lib NaT = ''NaT''"
| "astype_str lib (IntC i) = str_int i"
| "astype_str lib (FloatC r) = float_str lib r"
| "astype_str lib (TsC t) = timestamp_str lib t"
| "astype_str lib (TimeC t) = time_str t"

section \<open>clean\_data\<close>

subsection \<open>Sentinel replacement\<close>

text \<open>
  \<^verbatim>\<open>df_clean.replace(-200, np.nan)\<close>: a cell is replaced when it compares equal to the
  number \<open>-200\<close>; a string never does. A column of integers in which a cell is replaced
  becomes a column of floats, since the absent value is a float.
\<close>

fun replace_sentinel :: "cell \<Rightarrow> cell" where
  "replace_sentinel (IntC i) = (if i = -200 then NaN else IntC i)"
| "replace_sentinel (FloatC r) = (if r = -200 then NaN else FloatC r)"
| "replace_sentinel c = c"

fun is_int_cell :: "cell \<Rightarrow> bool" where
  "is_int_cell (IntC i) = True"
| "is_int_cell c = False"

fun upcast :: "cell \<Rightarrow> cell" where
  "upcast (IntC i) = FloatC (of_int i)"
| "upcast c = c"

definition replace_column :: "cell list \<Rightarrow> cell list" where
  "replace_column xs =
     (if list_all is_int_cell xs \<and> list_ex (\<lambda>c. c = IntC (- 200)) xs
      then map (\<lambda>c. upcast (replace_sentinel c)) xs
      else map replace_sentinel xs)"

definition df_replace :: "dataframe \<Rightarrow> dataframe" where
  "df_replace df = df\<lparr>cols := map (\<lambda>(name, xs). (name, replace_column xs)) (cols df)\<rparr>"

subsection \<open>Numeric coercion\<close>

definition numeric_columns :: "string list" where
  "numeric_columns = [''CO(GT)'', ''PT08.S1(CO)'', ''NMHC(GT)'', ''C6H6(GT)'',
                      ''PT08.S2(NMHC)'', ''NOx(GT)'', ''PT08.S3(NOx)'', ''NO2(GT)'',
                      ''PT08.S4(NO2)'', ''PT08.S5(O3)'', ''T'', ''RH'', ''AH'']"

definition comma_to_dot :: "pandas \<Rightarrow> cell \<Rightarrow> cell" where
  "comma_to_dot lib c = StrC (str_replace CHR '','' CHR ''.'' (astype_str lib c))"

text \<open>
  \<^verbatim>\<open>pd.to_numeric(col, errors='coerce')\<close> reads every cell as a number and then chooses
  one type for the column: integers when every cell denotes an integer, floats otherwise
  (the absent value is a float). Integers are unbounded here.
\<close>

fun num_parse_cell :: "pandas \<Rightarrow> cell \<Rightarrow> num_lit option" where
  "num_parse_cell lib (StrC s) = num_parse lib s"
| "num_parse_cell lib (IntC i) = Some (IntLit i)"
| "num_parse_cell lib (FloatC r) = Some (FloatLit r)"
| "num_parse_cell lib c = None"

fun is_int_lit :: "num_lit option \<Rightarrow> bool" where
  "is_int_lit (Some (IntLit i)) = True"
| "is_int_lit l = False"

fun lit_float :: "num_lit option \<Rightarrow> cell" where
  "lit_float None = NaN"
| "lit_float (Some (IntLit i)) = FloatC (of_int i)"
| "lit_float (Some (FloatLit r)) = FloatC r"

fun lit_int :: "num_lit option \<Rightarrow> cell" where
  "lit_int (Some (IntLit i)) = IntC i"
| "lit_int l = lit_float l"

definition to_numeric_col :: "pandas \<Rightarrow> cell list \<Rightarrow> cell list" where
  "to_numeric_col lib xs =
     (let lits = map (num_parse_cell lib) xs
      in if list_all is_int_lit lits then map lit_int lits else map lit_float lits)"

text \<open>One round of the loop over \<open>numeric_columns\<close>: two column assignments.\<close>

definition coerce_column :: "pandas \<Rightarrow> string \<Rightarrow> dataframe \<Rightarrow> dataframe" where
  "coerce_column lib col df =
     (case get_col col df of
        None \<Rightarrow> df
      | Some xs \<Rightarrow>
          (let df1 = set_col col (map (comma_to_dot lib) xs) df
           in case get_col col df1 of
                None \<Rightarrow> df1
              | Some ys \<Rightarrow> set_col col (to_numeric_col lib ys) df1))"

definition coerce_numeric :: "pandas \<Rightarrow> dataframe \<Rightarrow> dataframe" where
  "coerce_numeric lib df = fold (coerce_column lib) numeric_columns df"

subsection \<open>Date and time parsing\<close>

definition ts_cell :: "timestamp option \<Rightarrow> cell" where
  "ts_cell r = (case r of None \<Rightarrow> NaT | Some ts \<Rightarrow> TsC ts)"

definition parse_date :: "pandas \<Rightarrow> dataframe \<Rightarrow> dataframe" where
  "parse_date lib df =
     (case get_col ''Date'' df of
        None \<Rightarrow> df
      | Some xs \<Rightarrow> set_col ''Date'' (map ts_cell (to_datetime_col lib xs)) df)"

text \<open>\<^verbatim>\<open>a.combine_first(b)\<close> keeps the value of \<open>a\<close> where it is present and takes the
  one of \<open>b\<close> elsewhere, row by row; \<^verbatim>\<open>.dt.time\<close> keeps the time of day.\<close>

definition combine_first :: "'a option \<Rightarrow> 'a option \<Rightarrow> 'a option" where
  "combine_first a b = (case a of None \<Rightarrow> b | Some x \<Rightarrow> Some x)"

definition combine_first_col :: "'a option list \<Rightarrow> 'a option list \<Rightarrow> 'a option list" where
  "combine_first_col xs ys = map (\<lambda>(a, b). combine_first a b) (zip xs ys)"

definition dt_time :: "timestamp option \<Rightarrow> cell" where
  "dt_time r = (case r of None \<Rightarrow> NaT | Some ts \<Rightarrow> TimeC (clock ts))"

definition parse_time_column :: "pandas \<Rightarrow> cell list \<Rightarrow> cell list" where
  "parse_time_column lib xs =
     (let time_series = map (\<lambda>c. str_strip (astype_str lib c)) xs;
          time_norm = map (str_replace CHR ''.'' CHR '':'') time_series;
          parsed1 = map (strptime lib ''%H:%M:%S'') time_norm;
          parsed2 = combine_first_col parsed1 (map (strptime lib ''%H:%M'') time_norm);
          parsed3 = combine_first_col parsed2 (to_datetime_col lib (map StrC time_series))
      in map dt_time parsed3)"

definition parse_time :: "pandas \<Rightarrow> dataframe \<Rightarrow> dataframe" where
  "parse_time lib df =
     (case get_col ''Time'' df of
        None \<Rightarrow> df
      | Some xs \<Rightarrow> set_col ''Time'' (parse_time_column lib xs) df)"

subsection \<open>The combined timestamp\<close>

text \<open>
  The text of one row of the mask: the date as \<^verbatim>\<open>%Y-%m-%d\<close>, a blank, the time as text.
  When this runs, the Date column was assigned by \<open>parse_date\<close> under the same column
  test, so a present Date cell is a timestamp. The texts of all rows of the mask are
  parsed by one call, and \<^verbatim>\<open>df.loc[mask, col] = values\<close> gives the rows of the mask the
  values in order and leaves the other rows as they were.
\<close>

fun date_text :: "cell \<Rightarrow> string" where
  "date_text (TsC d) = strftime_ymd d"
| "date_text c = []"

definition combined_text :: "pandas \<Rightarrow> cell \<Rightarrow> cell \<Rightarrow> string" where
  "combined_text lib d t = date_text d @ '' '' @ astype_str lib t"

definition valid_datetime_mask :: "cell list \<Rightarrow> cell list \<Rightarrow> bool list" where
  "valid_datetime_mask ds ts = map (\<lambda>(d, t). notna d \<and> notna t) (zip ds ts)"

fun loc_assign :: "bool list \<Rightarrow> cell list \<Rightarrow> cell list \<Rightarrow> cell list" where
  "loc_assign (m # ms) (u # us) vs =
     (if m
      then (case vs of
              [] \<Rightarrow> u # loc_assign ms us []
            | v # vs' \<Rightarrow> v # loc_assign ms us vs')
      else u # loc_assign ms us vs)"
| "loc_assign ms us vs = us"

definition derive_datetime :: "pandas \<Rightarrow> dataframe \<Rightarrow> dataframe" where
  "derive_datetime lib df =
     (let df1 = set_col ''DateTime'' (replicate (n_rows df) NaT) df
      in case (get_col ''Date'' df1, get_col ''Time'' df1) of
           (Some ds, Some ts) \<Rightarrow>
             (let msk = valid_datetime_mask ds ts
              in if list_ex (\<lambda>m. m) msk
                 then set_col ''DateTime''
                        (loc_assign msk (replicate (n_rows df) NaT)
                           (map ts_cell
                              (to_datetime_col lib
                                 (map (\<lambda>(d, t). StrC (combined_text lib d t))
                                    (select_cells msk (zip ds ts)))))) df1
                 else df1)
         | _ \<Rightarrow> df1)"

text \<open>\<^verbatim>\<open>df_clean['Datetime'] = df_clean['DateTime']\<close>; the column read here was assigned
  just before.\<close>

definition alias_datetime :: "dataframe \<Rightarrow> dataframe" where
  "alias_datetime df =
     (case get_col ''DateTime'' df of
        None \<Rightarrow> df
      | Some xs \<Rightarrow> set_col ''Datetime'' xs df)"

subsection \<open>The pipeline\<close>

definition clean_frame :: "pandas \<Rightarrow> dataframe \<Rightarrow> dataframe" where
  "clean_frame lib df =
     coerce_numeric lib (alias_datetime (derive_datetime lib
       (parse_time lib (parse_date lib (df_replace df)))))"

fun clean_data :: "pandas \<Rightarrow> dataframe option \<Rightarrow> dataframe option" where
  "clean_data lib None = None"
| "clean_data lib (Some df) = Some (clean_frame lib df)"

subsection \<open>The pipeline on a store of table objects\<close>

text \<open>
  In Python a table is an object and a column assignment changes it in place. The store
  maps a reference to the table it holds; \<^verbatim>\<open>df.copy()\<close> and \<^verbatim>\<open>df.replace(...)\<close> build a
  new object, every \<^verbatim>\<open>df_clean[col] = ...\<close> changes the object \<open>df_clean\<close> refers to.
\<close>

record store =
  objs :: "nat \<Rightarrow> dataframe option"
  next_ref :: nat

definition store_ok :: "store \<Rightarrow> bool" where
  "store_ok s = (\<forall>a. next_ref s \<le> a \<longrightarrow> objs s a = None)"

definition alloc :: "dataframe \<Rightarrow> store \<Rightarrow> nat \<times> store" where
  "alloc df s = (next_ref s, s\<lparr>objs := (objs s)(next_ref s \<mapsto> df), next_ref := Suc (next_ref s)\<rparr>)"

definition assign_in_place :: "nat \<Rightarrow> (dataframe \<Rightarrow> dataframe) \<Rightarrow> store \<Rightarrow> store" where
  "assign_in_place r f s =
     (case objs s r of
        None \<Rightarrow> s
      | Some df \<Rightarrow> s\<lparr>objs := (objs s)(r \<mapsto> f df)\<rparr>)"

definition clean_data_st :: "pandas \<Rightarrow> nat option \<Rightarrow> store \<Rightarrow> nat option \<times> store" where
  "clean_data_st lib arg s =
     (case arg of
        None \<Rightarrow> (None, s)
      | Some r \<Rightarrow>
          (case objs s r of
             None \<Rightarrow> (None, s)
           | Some df \<Rightarrow>
               (let (c, s1) = alloc df s;
                    (df_clean, s2) = (case objs s1 c of
                                        None \<Rightarrow> (c, s1)
                                      | Some d \<Rightarrow> alloc (df_replace d) s1);
                    s3 = assign_in_place df_clean (parse_date lib) s2;
                    s4 = assign_in_place df_clean (parse_time lib) s3;
                    s5 = assign_in_place df_clean (derive_datetime lib) s4;
                    s6 = assign_in_place df_clean alias_datetime s5;
                    s7 = fold (\<lambda>col. assign_in_place df_clean (coerce_column lib col))
                           numeric_columns s6
                in (Some df_clean, s7))))"

section \<open>load\_data\<close>

text \<open>
  \<^verbatim>\<open>pd.read_csv(file_path, sep=';')\<close> opens the file, splits it into records and fields,
  and refuses a record that has more fields than expected: the header and the first
  record fix the number, and every later record is checked against it; the error names
  the number expected, the line of the record and the number seen. A file without any
  record has no columns to parse. \<open>read_file\<close> is what opening and reading the file
  does in the world the program runs in: it raises or gives the text.
\<close>

fun check_fields :: "nat \<Rightarrow> nat \<Rightarrow> string list list \<Rightarrow> (nat \<times> nat \<times> nat) option" where
  "check_fields expected k [] = None"
| "check_fields expected k (r # rs) =
     (if expected < length r then Some (expected, k, length r)
      else check_fields expected (Suc k) rs)"

definition bad_record :: "string list list \<Rightarrow> (nat \<times> nat \<times> nat) option" where
  "bad_record records =
     (case records of
        header # first # rest \<Rightarrow> check_fields (max (length header) (length first)) 3 rest
      | _ \<Rightarrow> None)"

definition read_csv ::
  "pandas \<Rightarrow> (string \<Rightarrow> py_exc + string) \<Rightarrow> string \<Rightarrow> py_exc + dataframe" where
  "read_csv lib read_file file_path =
     (case read_file file_path of
        Inl e \<Rightarrow> Inl e
      | Inr text \<Rightarrow>
          (case csv_records lib text of
             [] \<Rightarrow> Inl (EmptyDataError ''No columns to parse from file'')
           | header # rows \<Rightarrow>
               (case bad_record (header # rows) of
                  Some (expected, k, seen) \<Rightarrow>
                    Inl (ParserError expected (record_line lib text k) seen)
                | None \<Rightarrow> build_frame lib header rows)))"

text \<open>\<^verbatim>\<open>df.dropna(axis=1, how='all')\<close> keeps the columns with a present cell.\<close>

definition dropna_all :: "dataframe \<Rightarrow> dataframe" where
  "dropna_all df = df\<lparr>cols := filter (\<lambda>p. list_ex notna (snd p)) (cols df)\<rparr>"

text \<open>\<^verbatim>\<open>except Exception\<close> catches every exception class but the ones that derive from
  \<^verbatim>\<open>BaseException\<close> only (a keyboard interrupt, a system exit).\<close>

fun is_Exception :: "py_exc \<Rightarrow> bool" where
  "is_Exception (BaseOnly m) = False"
| "is_Exception e = True"

fun exc_str :: "py_exc \<Rightarrow> string" where
  "exc_str (FileNotFoundError m) = m"
| "exc_str (KeyError m) = m"
| "exc_str (TypeError m) = m"
| "exc_str (ValueError m) = m"
| "exc_str (ParserError expected line seen) =
     ''Error tokenizing data. C error: Expected '' @ str_nat expected @ '' fields in line '' @
     str_nat line @ '', saw '' @ str_nat seen @ [CHR 0x0A]"
| "exc_str (EmptyDataError m) = m"
| "exc_str (OtherException m) = m"
| "exc_str (BaseOnly m) = m"

text \<open>The result of \<open>load_data\<close> is the text printed and either the exception that leaves
  the function or the value returned.\<close>

definition load_data ::
  "pandas \<Rightarrow> (string \<Rightarrow> py_exc + string) \<Rightarrow> string
     \<Rightarrow> string list \<times> (py_exc + dataframe option)" where
  "load_data lib read_file file_path =
     (case read_csv lib read_file file_path of
        Inr df \<Rightarrow> ([], Inr (Some (dropna_all df)))
      | Inl (FileNotFoundError m) \<Rightarrow>
          ([''Error: Could not find file '' @ file_path], Inr None)
      | Inl e \<Rightarrow>
          (if is_Exception e
           then ([''Error loading data: '' @ exc_str e], Inr None)
           else ([], Inl e)))"

section \<open>filter\_by\_date\_range\<close>

text \<open>Timestamps are ordered by year, month, day and time of day.\<close>

definition ts_key :: "timestamp \<Rightarrow> nat \<times> nat \<times> nat \<times> nat \<times> nat \<times> nat \<times> nat" where
  "ts_key t = (year t, month t, day t, hour (clock t), minute (clock t), second (clock t),
               microsecond (clock t))"

definition ts_le :: "timestamp \<Rightarrow> timestamp \<Rightarrow> bool" where
  "ts_le a b = (ts_key a \<le> ts_key b)"

text \<open>
  \<^verbatim>\<open>df['Date'] >= bound\<close> and \<^verbatim>\<open>df['Date'] <= bound\<close> for one cell: a missing cell and a
  missing bound compare false, a cell that is no timestamp cannot be compared.
\<close>

fun date_ge :: "timestamp option \<Rightarrow> cell \<Rightarrow> py_exc + bool" where
  "date_ge b (TsC d) = Inr (case b of None \<Rightarrow> False | Some s \<Rightarrow> ts_le s d)"
| "date_ge b NaT = Inr False"
| "date_ge b NaN = Inr False"
| "date_ge b c = Inl (TypeError ''>='')"

fun date_le :: "timestamp option \<Rightarrow> cell \<Rightarrow> py_exc + bool" where
  "date_le b (TsC d) = Inr (case b of None \<Rightarrow> False | Some e \<Rightarrow> ts_le d e)"
| "date_le b NaT = Inr False"
| "date_le b NaN = Inr False"
| "date_le b c = Inl (TypeError ''<='')"

fun compare_col :: "(cell \<Rightarrow> py_exc + bool) \<Rightarrow> cell list \<Rightarrow> py_exc + bool list" where
  "compare_col f [] = Inr []"
| "compare_col f (c # cs) =
     (case f c of
        Inl e \<Rightarrow> Inl e
      | Inr b \<Rightarrow> (case compare_col f cs of Inl e \<Rightarrow> Inl e | Inr bs \<Rightarrow> Inr (b # bs)))"

text \<open>\<^verbatim>\<open>df[mask]\<close> keeps the rows where the mask holds, in order.\<close>

definition select_rows :: "bool list \<Rightarrow> dataframe \<Rightarrow> dataframe" where
  "select_rows msk df =
     \<lparr>n_rows = length (filter (\<lambda>m. m) msk),
      cols = map (\<lambda>(name, xs). (name, select_cells msk xs)) (cols df)\<rparr>"

text \<open>One of the two \<^verbatim>\<open>if bound:\<close> steps; \<open>None\<close> and the empty string are false.\<close>

definition filter_step ::
  "pandas \<Rightarrow> (timestamp option \<Rightarrow> cell \<Rightarrow> py_exc + bool) \<Rightarrow> string option \<Rightarrow> dataframe
     \<Rightarrow> py_exc + dataframe" where
  "filter_step lib cmp bound df =
     (case bound of
        None \<Rightarrow> Inr df
      | Some s \<Rightarrow>
          if s = [] then Inr df
          else (case get_col ''Date'' df of
                  None \<Rightarrow> Inl (KeyError ''Date'')
                | Some ds \<Rightarrow>
                    (case to_datetime_scalar lib s of
                       Inl e \<Rightarrow> Inl e
                     | Inr b \<Rightarrow>
                         (case compare_col (cmp b) ds of
                            Inl e \<Rightarrow> Inl e
                          | Inr msk \<Rightarrow> Inr (select_rows msk df)))))"

definition filter_by_date_range ::
  "pandas \<Rightarrow> dataframe option \<Rightarrow> string option \<Rightarrow> string option \<Rightarrow> py_exc + dataframe option" where
  "filter_by_date_range lib df start_date end_date =
     (case df of
        None \<Rightarrow> Inr None
      | Some d \<Rightarrow>
          (case filter_step lib date_ge start_date d of
             Inl e \<Rightarrow> Inl e
           | Inr df_filtered \<Rightarrow>
               (case filter_step lib date_le end_date df_filtered of
                  Inl e \<Rightarrow> Inl e
                | Inr df_filtered2 \<Rightarrow> Inr (Some df_filtered2))))"

section \<open>get\_data\_summary and get\_daily\_averages\<close>

datatype summary_value =
    Count nat
  | DateRange cell cell
  | Percentages "(string \<times> cell) list"
  | Names "string list"

definition missing_data_percentage :: "pandas \<Rightarrow> dataframe \<Rightarrow> (string \<times> cell) list" where
  "missing_data_percentage lib df =
     map (\<lambda>(name, xs).
            (name, if n_rows df = 0 then NaN
                   else FloatC (round2 lib (of_nat (length (filter isna xs)) / of_nat (n_rows df) * 100))))
         (cols df)"

definition select_numeric :: "pandas \<Rightarrow> dataframe \<Rightarrow> string list" where
  "select_numeric lib df = map fst (filter (\<lambda>p. numeric_dtype lib (snd p)) (cols df))"

definition get_data_summary ::
  "pandas \<Rightarrow> dataframe option \<Rightarrow> py_exc + (string \<rightharpoonup> summary_value)" where
  "get_data_summary lib df =
     (case df of
        None \<Rightarrow> Inr Map.empty
      | Some d \<Rightarrow>
          (case get_col ''Date'' d of
             None \<Rightarrow> Inl (KeyError ''Date'')
           | Some ds \<Rightarrow>
               (case series_min lib ds of
                  Inl e \<Rightarrow> Inl e
                | Inr lo \<Rightarrow>
                    (case series_max lib ds of
                       Inl e \<Rightarrow> Inl e
                     | Inr hi \<Rightarrow>
                         Inr [''total_records'' \<mapsto> Count (n_rows d),
                              ''date_range'' \<mapsto> DateRange lo hi,
                              ''missing_data_percentage'' \<mapsto>
                                 Percentages (missing_data_percentage lib d),
                              ''numeric_columns'' \<mapsto> Names (select_numeric lib d)]))))"

definition get_daily_averages :: "pandas \<Rightarrow> dataframe option \<Rightarrow> py_exc + dataframe option" where
  "get_daily_averages lib df =
     (case df of
        None \<Rightarrow> Inr None
      | Some d \<Rightarrow>
          (let numeric_cols = select_numeric lib d
           in case groupby_mean lib ''Date'' numeric_cols d of
                Inl e \<Rightarrow> Inl e
              | Inr daily_avg \<Rightarrow> Inr (Some daily_avg)))"


section \<open>A reference behaviour of the library\<close>

text \<open>
  To run the pipeline on concrete tables, \<open>pandas_ref\<close> fixes one behaviour of the
  library functions on the inputs the examples use. Its inferring parse knows three
  formats, \<^verbatim>\<open>%Y-%m-%d\<close>, \<^verbatim>\<open>%Y-%m-%d %H:%M:%S\<close> and \<^verbatim>\<open>%Y-%m-%d %H:%M:%S.%f\<close>: as pandas 2
  does, it takes the format of the first present value of the column when that is a text
  in which a format with year, month and day is recognised, and matches every text
  against that one format; when no format is recognised there, every text is parsed on
  its own. Its strict parse knows the two time formats with fields of one or two digits,
  and its numbers are plain decimals. On the inputs of the examples pandas 2 gives the
  same values.
\<close>

fun parse_nat_acc :: "nat \<Rightarrow> string \<Rightarrow> nat option" where
  "parse_nat_acc acc [] = Some acc"
| "parse_nat_acc acc (c # cs) =
     (case digit_val c of None \<Rightarrow> None | Some d \<Rightarrow> parse_nat_acc (10 * acc + d) cs)"

definition parse_digits :: "string \<Rightarrow> nat option" where
  "parse_digits s = (if s = [] then None else parse_nat_acc 0 s)"

fun split_on :: "char \<Rightarrow> string \<Rightarrow> string list" where
  "split_on c [] = [[]]"
| "split_on c (x # xs) =
     (if x = c then [] # split_on c xs
      else (case split_on c xs of [] \<Rightarrow> [[x]] | w # ws \<Rightarrow> (x # w) # ws))"

definition ref_field :: "nat \<Rightarrow> nat \<Rightarrow> nat \<Rightarrow> string \<Rightarrow> nat option" where
  "ref_field min_len max_len bound s =
     (if min_len \<le> length s \<and> length s \<le> max_len
      then (case parse_digits s of
              None \<Rightarrow> None
            | Some n \<Rightarrow> if n \<le> bound then Some n else None)
      else None)"

definition ref_clock :: "nat \<Rightarrow> string list \<Rightarrow> time_of_day option" where
  "ref_clock min_len fs =
     (case fs of
        [h, m] \<Rightarrow>
          (case (ref_field min_len 2 23 h, ref_field min_len 2 59 m) of
             (Some hh, Some mm) \<Rightarrow> Some \<lparr>hour = hh, minute = mm, second = 0, microsecond = 0\<rparr>
           | _ \<Rightarrow> None)
      | [h, m, sec] \<Rightarrow>
          (case (ref_field min_len 2 23 h, ref_field min_len 2 59 m, ref_field min_len 2 59 sec) of
             (Some hh, Some mm, Some ss) \<Rightarrow>
               Some \<lparr>hour = hh, minute = mm, second = ss, microsecond = 0\<rparr>
           | _ \<Rightarrow> None)
      | _ \<Rightarrow> None)"

definition ref_strptime :: "string \<Rightarrow> string \<Rightarrow> timestamp option" where
  "ref_strptime fmt s =
     (let fs = split_on CHR '':'' s
      in if (fmt = ''%H:%M:%S'' \<and> length fs = 3) \<or> (fmt = ''%H:%M'' \<and> length fs = 2)
         then map_option (\<lambda>t. \<lparr>year = 1900, month = 1, day = 1, clock = t\<rparr>) (ref_clock 1 fs)
         else None)"

definition ref_date :: "string \<Rightarrow> (nat \<times> nat \<times> nat) option" where
  "ref_date s =
     (case split_on CHR ''-'' s of
        [y, m, d] \<Rightarrow>
          (case (ref_field 4 4 9999 y, ref_field 2 2 12 m, ref_field 2 2 31 d) of
             (Some yy, Some mm, Some dd) \<Rightarrow> if 1 \<le> mm \<and> 1 \<le> dd then Some (yy, mm, dd) else None
           | _ \<Rightarrow> None)
      | _ \<Rightarrow> None)"

datatype ref_format = IsoDate | IsoSeconds | IsoMicros

definition ref_seconds :: "string \<Rightarrow> time_of_day option" where
  "ref_seconds s =
     (let fs = split_on CHR '':'' s
      in if length fs = 3 then ref_clock 2 fs else None)"

definition ref_micros :: "string \<Rightarrow> time_of_day option" where
  "ref_micros s =
     (case split_on CHR ''.'' s of
        [hs, fr] \<Rightarrow>
          (case (ref_seconds hs, ref_field 6 6 999999 fr) of
             (Some c, Some us) \<Rightarrow> Some (c\<lparr>microsecond := us\<rparr>)
           | _ \<Rightarrow> None)
      | _ \<Rightarrow> None)"

definition ref_stamp :: "(nat \<times> nat \<times> nat) option \<Rightarrow> time_of_day option \<Rightarrow> timestamp option" where
  "ref_stamp d c =
     (case (d, c) of
        (Some (yy, mm, dd), Some t) \<Rightarrow> Some \<lparr>year = yy, month = mm, day = dd, clock = t\<rparr>
      | _ \<Rightarrow> None)"

fun ref_parse :: "ref_format \<Rightarrow> string \<Rightarrow> timestamp option" where
  "ref_parse IsoDate s =
     ref_stamp (ref_date s) (Some \<lparr>hour = 0, minute = 0, second = 0, microsecond = 0\<rparr>)"
| "ref_parse IsoSeconds s =
     (case split_on CHR '' '' s of
        [d, t] \<Rightarrow> ref_stamp (ref_date d) (ref_seconds t)
      | _ \<Rightarrow> None)"
| "ref_parse IsoMicros s =
     (case split_on CHR '' '' s of
        [d, t] \<Rightarrow> ref_stamp (ref_date d) (ref_micros t)
      | _ \<Rightarrow> None)"

definition ref_guess :: "string \<Rightarrow> ref_format option" where
  "ref_guess s =
     (if ref_parse IsoDate s \<noteq> None then Some IsoDate
      else if ref_parse IsoSeconds s \<noteq> None then Some IsoSeconds
      else if ref_parse IsoMicros s \<noteq> None then Some IsoMicros
      else None)"

definition ref_any :: "string \<Rightarrow> timestamp option" where
  "ref_any s = (case ref_guess s of None \<Rightarrow> None | Some f \<Rightarrow> ref_parse f s)"

fun first_present :: "cell list \<Rightarrow> cell option" where
  "first_present [] = None"
| "first_present (c # cs) = (if isna c then first_present cs else Some c)"

definition ref_column_format :: "cell list \<Rightarrow> ref_format option" where
  "ref_column_format xs =
     (case first_present xs of
        Some (StrC s) \<Rightarrow> ref_guess s
      | _ \<Rightarrow> None)"

definition ref_to_datetime :: "cell list \<Rightarrow> nat \<Rightarrow> timestamp option" where
  "ref_to_datetime xs i =
     (if i < length xs
      then (case xs ! i of
              TsC t \<Rightarrow> Some t
            | StrC s \<Rightarrow>
                (case ref_column_format xs of
                   Some f \<Rightarrow> ref_parse f s
                 | None \<Rightarrow> ref_any s)
            | _ \<Rightarrow> None)
      else None)"

definition ref_to_datetime_scalar :: "string \<Rightarrow> py_exc + timestamp option" where
  "ref_to_datetime_scalar s =
     (case ref_any s of
        None \<Rightarrow> Inl (ValueError s)
      | Some t \<Rightarrow> Inr (Some t))"

definition ref_num_parse :: "string \<Rightarrow> num_lit option" where
  "ref_num_parse s =
     (let neg = (take 1 s = ''-'');
          body = (if neg then drop 1 s else s)
      in case split_on CHR ''.'' body of
           [ip] \<Rightarrow> map_option (\<lambda>a. IntLit ((if neg then - 1 else 1) * int a)) (parse_digits ip)
         | [ip, fp] \<Rightarrow>
             (case (parse_digits ip, parse_digits fp) of
                (Some a, Some b) \<Rightarrow>
                  Some (FloatLit ((if neg then - 1 else 1) * (of_nat a + of_nat b / 10 ^ length fp)))
              | _ \<Rightarrow> None)
         | _ \<Rightarrow> None)"

fun frac_digits :: "nat \<Rightarrow> rat \<Rightarrow> string" where
  "frac_digits 0 r = []"
| "frac_digits (Suc k) r =
     (if r = 0 then []
      else (let d = nat \<lfloor>10 * r\<rfloor> in digit_char d # frac_digits k (10 * r - of_nat d)))"

definition ref_float_str :: "rat \<Rightarrow> string" where
  "ref_float_str r =
     (let a = \<bar>r\<bar>; ip = nat \<lfloor>a\<rfloor>; fp = frac_digits 17 (a - of_nat ip)
      in (if r < 0 then ''-'' else []) @ str_nat ip @ ''.'' @ (if fp = [] then ''0'' else fp))"

definition ref_timestamp_str :: "timestamp \<Rightarrow> string" where
  "ref_timestamp_str t = strftime_ymd t @ '' '' @ time_str (clock t)"

fun is_number :: "cell \<Rightarrow> bool" where
  "is_number (IntC i) = True"
| "is_number (FloatC r) = True"
| "is_number NaN = True"
| "is_number c = False"

fun timestamps_of :: "cell list \<Rightarrow> timestamp list" where
  "timestamps_of [] = []"
| "timestamps_of (TsC t # cs) = t # timestamps_of cs"
| "timestamps_of (c # cs) = timestamps_of cs"

definition ref_series_min :: "cell list \<Rightarrow> py_exc + cell" where
  "ref_series_min xs =
     Inr (case timestamps_of xs of
            [] \<Rightarrow> NaT
          | t # ts \<Rightarrow> TsC (fold (\<lambda>a b. if ts_le a b then a else b) ts t))"

definition ref_series_max :: "cell list \<Rightarrow> py_exc + cell" where
  "ref_series_max xs =
     Inr (case timestamps_of xs of
            [] \<Rightarrow> NaT
          | t # ts \<Rightarrow> TsC (fold (\<lambda>a b. if ts_le a b then b else a) ts t))"

definition ref_round2 :: "rat \<Rightarrow> rat" where
  "ref_round2 r =
     (let q = r * 100; f = \<lfloor>q\<rfloor>; d = q - of_int f
      in of_int (if d < 1 / 2 then f else if 1 / 2 < d then f + 1
                 else if even f then f else f + 1) / 100)"

fun numbers_of :: "cell list \<Rightarrow> rat list" where
  "numbers_of [] = []"
| "numbers_of (IntC i # cs) = of_int i # numbers_of cs"
| "numbers_of (FloatC r # cs) = r # numbers_of cs"
| "numbers_of (c # cs) = numbers_of cs"

definition ref_mean :: "cell list \<Rightarrow> cell" where
  "ref_mean xs =
     (let vs = numbers_of xs
      in if vs = [] then NaN else FloatC (sum_list vs / of_nat (length vs)))"

definition ref_groupby_mean :: "string \<Rightarrow> string list \<Rightarrow> dataframe \<Rightarrow> py_exc + dataframe" where
  "ref_groupby_mean key names df =
     (case get_col key df of
        None \<Rightarrow> Inl (KeyError key)
      | Some ks \<Rightarrow>
          (let groups = remdups (sort_key ts_key (timestamps_of ks))
           in Inr \<lparr>n_rows = length groups,
                   cols = (key, map TsC groups) #
                     map (\<lambda>name. (name,
                            map (\<lambda>g. ref_mean
                                   (select_cells (map (\<lambda>k. k = TsC g) ks)
                                      (case get_col name df of None \<Rightarrow> [] | Some xs \<Rightarrow> xs)))
                              groups))
                       (filter (\<lambda>name. name \<noteq> key) names)\<rparr>))"

text \<open>The records of a text: its lines that are not empty, split at the semicolons;
  empty lines count as lines. The table built from them names a column after its header field and holds every field
  as a number when the whole column reads as numbers, as text otherwise, an empty field
  as absent.\<close>

definition ref_csv_records :: "string \<Rightarrow> string list list" where
  "ref_csv_records text =
     map (split_on CHR '';'') (filter (\<lambda>l. l \<noteq> []) (split_on (CHR 0x0A) text))"

fun ref_line_of :: "nat \<Rightarrow> nat \<Rightarrow> string list \<Rightarrow> nat" where
  "ref_line_of line k [] = line"
| "ref_line_of line k (l # ls) =
     (if l = [] then ref_line_of (Suc line) k ls
      else if k \<le> 1 then line
      else ref_line_of (Suc line) (k - 1) ls)"

definition ref_record_line :: "string \<Rightarrow> nat \<Rightarrow> nat" where
  "ref_record_line text k = ref_line_of 1 k (split_on (CHR 0x0A) text)"

definition ref_field_cell :: "string \<Rightarrow> cell" where
  "ref_field_cell s =
     (if s = [] then NaN
      else (case ref_num_parse s of
              None \<Rightarrow> StrC s
            | Some (IntLit i) \<Rightarrow> IntC i
            | Some (FloatLit r) \<Rightarrow> FloatC r))"

definition ref_typed_column :: "string list \<Rightarrow> cell list" where
  "ref_typed_column fs =
     (let cs = map ref_field_cell fs
      in if list_all is_int_cell cs then cs
         else if list_all is_number cs then map upcast cs
         else map (\<lambda>s. if s = [] then NaN else StrC s) fs)"

definition ref_build_frame :: "string list \<Rightarrow> string list list \<Rightarrow> py_exc + dataframe" where
  "ref_build_frame header rows =
     Inr \<lparr>n_rows = length rows,
          cols = map (\<lambda>j. (if header ! j = [] then ''Unnamed: '' @ str_nat j else header ! j,
                           ref_typed_column (map (\<lambda>r. if j < length r then r ! j else []) rows)))
                   [0..<length header]\<rparr>"

definition pandas_ref :: pandas where
  "pandas_ref =
     \<lparr>to_datetime = ref_to_datetime,
      strptime = ref_strptime,
      to_datetime_scalar = ref_to_datetime_scalar,
      num_parse = ref_num_parse,
      float_str = ref_float_str,
      timestamp_str = ref_timestamp_str,
      numeric_dtype = list_all is_number,
      series_min = ref_series_min,
      series_max = ref_series_max,
      round2 = ref_round2,
      groupby_mean = ref_groupby_mean,
      csv_records = ref_csv_records,
      record_line = ref_record_line,
      build_frame = ref_build_frame\<rparr>"

section \<open>Auxiliary definitions for the statements\<close>

text \<open>The values \<open>derive_datetime\<close> assigns to the column \<^verbatim>\<open>DateTime\<close>, read off its
  definition.\<close>

definition datetime_values :: "pandas \<Rightarrow> dataframe \<Rightarrow> cell list" where
  "datetime_values lib df =
     (case (get_col ''Date'' df, get_col ''Time'' df) of
        (Some ds, Some ts) \<Rightarrow>
          (if list_ex (\<lambda>m. m) (valid_datetime_mask ds ts)
           then loc_assign (valid_datetime_mask ds ts) (replicate (n_rows df) NaT)
                  (map ts_cell
                     (to_datetime_col lib
                        (map (\<lambda>(d, t). StrC (combined_text lib d t))
                           (select_cells (valid_datetime_mask ds ts) (zip ds ts)))))
           else replicate (n_rows df) NaT)
      | _ \<Rightarrow> replicate (n_rows df) NaT)"








text \<open>The coercion of one named column, the text of a cell that the numeric parse reads,
  and the number a cell and a parsed text denote.\<close>

definition coerce_col :: "pandas \<Rightarrow> cell list \<Rightarrow> cell list" where
  "coerce_col lib xs = to_numeric_col lib (map (comma_to_dot lib) xs)"




text \<open>
  The closed range of the date filter as the specification words it: a record is in range
  when its date is a timestamp that is not before the lower bound and not after the upper
  bound, where a missing bound does not constrain. \<open>clean_dates\<close> says that a Date column
  is the one of a cleaned table: timestamps and absent cells.
\<close>

definition in_range :: "timestamp option \<Rightarrow> timestamp option \<Rightarrow> cell \<Rightarrow> bool" where
  "in_range lo hi c =
     (case c of
        TsC d \<Rightarrow> (case lo of None \<Rightarrow> True | Some l \<Rightarrow> ts_le l d)
               \<and> (case hi of None \<Rightarrow> True | Some h \<Rightarrow> ts_le d h)
      | _ \<Rightarrow> False)"

definition clean_dates :: "cell list \<Rightarrow> bool" where
  "clean_dates ds = (\<forall>c\<in>set ds. isna c \<or> (\<exists>d. c = TsC d))"

section \<open>Example inputs\<close>

definition ex_files :: "string \<Rightarrow> py_exc + string" where
  "ex_files path =
     (if path = ''good.csv''
      then Inr (''Date;Time;T;'' @ [CHR 0x0A] @
                ''10/03/2004;18.00.00;13,6;'' @ [CHR 0x0A] @
                ''10/03/2004;19.00.00;bad;'' @ [CHR 0x0A])
      else if path = ''long_record.csv''
      then Inr (''Date;Time;T'' @ [CHR 0x0A] @
                ''10/03/2004;18.00.00;13,6'' @ [CHR 0x0A] @
                ''10/03/2004;19.00.00;13,3;;'' @ [CHR 0x0A])
      else Inl (FileNotFoundError path))"

definition ex_store :: store where
  "ex_store = \<lparr>objs = (\<lambda>a. if a = 0 then Some \<lparr>n_rows = 1, cols = [(''T'', [StrC ''13,6''])]\<rparr> else None),
               next_ref = 1\<rparr>"

definition march_2004 :: "nat \<Rightarrow> timestamp" where
  "march_2004 n = \<lparr>year = 2004, month = 3, day = n,
                   clock = \<lparr>hour = 0, minute = 0, second = 0, microsecond = 0\<rparr>\<rparr>"

definition ex_clean :: dataframe where
  "ex_clean = \<lparr>n_rows = 4,
               cols = [(''Date'', [TsC (march_2004 9), TsC (march_2004 10), NaT, TsC (march_2004 11)]),
                       (''T'', [FloatC 1, FloatC 2, FloatC 3, FloatC 4])]\<rparr>"

section \<open>Columns under assignment\<close>

lemma get_col_set_col:
  "get_col n (set_col m xs df) = (if n = m then Some xs else get_col n df)"
  by (simp add: get_col_def set_col_def update_conv')

lemma n_rows_set_col: "n_rows (set_col m xs df) = n_rows df"
  by (simp add: set_col_def)




lemma map_of_map_snd:
  "map_of (map (\<lambda>p. (fst p, f (snd p))) al) k = map_option f (map_of al k)"
  by (induction al) auto

lemma wf_frame_length: "wf_frame df \<Longrightarrow> get_col n df = Some xs \<Longrightarrow> length xs = n_rows df"
  by (auto simp: wf_frame_def get_col_def list_all_iff dest!: map_of_SomeD)

lemma has_col_get_col: "has_col n df = (get_col n df \<noteq> None)"
  by (simp add: has_col_def get_col_def map_of_eq_None_iff)

section \<open>Numeric coercion, column by column\<close>

lemma get_col_coerce_column:
  "get_col n (coerce_column lib col df) =
     (if n = col then map_option (coerce_col lib) (get_col n df) else get_col n df)"
  by (simp add: coerce_column_def get_col_set_col coerce_col_def Let_def split: option.splits)

lemma get_col_fold_coerce:
  "distinct cs \<Longrightarrow> get_col n (fold (coerce_column lib) cs df) =
     (if n \<in> set cs then map_option (coerce_col lib) (get_col n df) else get_col n df)"
  by (induction cs arbitrary: df) (auto simp: get_col_coerce_column)

lemma distinct_numeric_columns: "distinct numeric_columns"
  by (simp add: numeric_columns_def)

lemma get_col_coerce_numeric:
  "get_col n (coerce_numeric lib df) =
     (if n \<in> set numeric_columns then map_option (coerce_col lib) (get_col n df)
      else get_col n df)"
  unfolding coerce_numeric_def by (rule get_col_fold_coerce [OF distinct_numeric_columns])

















text \<open>The sentinel replacement itself leaves no cell that is the number \<open>-200\<close>; a
  text cell passes it unchanged.\<close>

lemma replace_sentinel_numbers:
  "replace_sentinel c \<noteq> IntC (- 200) \<and> replace_sentinel c \<noteq> FloatC (- 200)"
  by (cases c) simp_all

lemma replace_sentinel_text: "replace_sentinel (StrC s) = StrC s"
  by simp

text \<open>
  Claim C1. The sentinel replacement compares cells with the number \<open>-200\<close>, and it runs
  before the numeric coercion. A raw cell holding the text \<^verbatim>\<open>-200,0\<close> in the column
  \<^verbatim>\<open>CO(GT)\<close> is not replaced; the coercion then turns it into the number \<open>-200\<close>, which
  is in the cleaned table.
\<close>

theorem sentinel_survives_coercion:
  "clean_data pandas_ref (Some \<lparr>n_rows = 1, cols = [(''CO(GT)'', [StrC ''-200,0''])]\<rparr>)
     = Some \<lparr>n_rows = 1,
             cols = [(''CO(GT)'', [FloatC (- 200)]), (''DateTime'', [NaT]), (''Datetime'', [NaT])]\<rparr>"
  by code_simp

text \<open>
  Claim C5. A second run of the pipeline changes a cell of the first run's result: the
  text \<^verbatim>\<open>-200,0\<close> in \<^verbatim>\<open>C6H6(GT)\<close> is the number \<open>-200\<close> after one run, and that number is
  replaced by the absent value in the next run.
\<close>

theorem second_run_changes_cell:
  "clean_data pandas_ref (Some \<lparr>n_rows = 2, cols = [(''C6H6(GT)'', [StrC ''-200,0'', StrC ''11,9''])]\<rparr>)
     = Some \<lparr>n_rows = 2,
             cols = [(''C6H6(GT)'', [FloatC (- 200), FloatC (119 / 10)]),
                     (''DateTime'', [NaT, NaT]), (''Datetime'', [NaT, NaT])]\<rparr>
   \<and> clean_data pandas_ref
       (clean_data pandas_ref
          (Some \<lparr>n_rows = 2, cols = [(''C6H6(GT)'', [StrC ''-200,0'', StrC ''11,9''])]\<rparr>))
     = Some \<lparr>n_rows = 2,
             cols = [(''C6H6(GT)'', [NaN, FloatC (119 / 10)]),
                     (''DateTime'', [NaT, NaT]), (''Datetime'', [NaT, NaT])]\<rparr>"
  by code_simp

section \<open>The pipeline, column by column\<close>

lemma get_col_df_replace:
  "get_col n (df_replace df) = map_option replace_column (get_col n df)"
  by (simp add: get_col_def df_replace_def map_of_map_snd case_prod_unfold)

lemma n_rows_df_replace: "n_rows (df_replace df) = n_rows df"
  by (simp add: df_replace_def)




lemma get_col_parse_date:
  "get_col n (parse_date lib df) =
     (if n = ''Date'' then map_option (\<lambda>xs. map ts_cell (to_datetime_col lib xs)) (get_col n df)
      else get_col n df)"
  by (simp add: parse_date_def get_col_set_col split: option.splits)

lemma n_rows_parse_date: "n_rows (parse_date lib df) = n_rows df"
  by (simp add: parse_date_def n_rows_set_col split: option.splits)

lemma get_col_parse_time:
  "get_col n (parse_time lib df) =
     (if n = ''Time'' then map_option (parse_time_column lib) (get_col n df)
      else get_col n df)"
  by (simp add: parse_time_def get_col_set_col split: option.splits)

lemma n_rows_parse_time: "n_rows (parse_time lib df) = n_rows df"
  by (simp add: parse_time_def n_rows_set_col split: option.splits)





lemma get_col_derive_datetime:
  "get_col n (derive_datetime lib df) =
     (if n = ''DateTime'' then Some (datetime_values lib df) else get_col n df)"
  by (simp add: derive_datetime_def datetime_values_def get_col_set_col Let_def split: option.splits)

lemma n_rows_derive_datetime: "n_rows (derive_datetime lib df) = n_rows df"
  by (simp add: derive_datetime_def n_rows_set_col Let_def split: option.splits)

lemma get_col_alias_datetime:
  "get_col n (alias_datetime df) =
     (if n = ''Datetime'' \<and> get_col ''DateTime'' df \<noteq> None then get_col ''DateTime'' df
      else get_col n df)"
  by (auto simp add: alias_datetime_def get_col_set_col split: option.splits)

lemma not_numeric:
  "''DateTime'' \<notin> set numeric_columns" "''Datetime'' \<notin> set numeric_columns"
  "''Date'' \<notin> set numeric_columns" "''Time'' \<notin> set numeric_columns"
  by (simp_all add: numeric_columns_def)

lemma datetime_columns_clean_frame:
  "get_col ''DateTime'' (clean_frame lib df) =
     Some (datetime_values lib (parse_time lib (parse_date lib (df_replace df))))"
  "get_col ''Datetime'' (clean_frame lib df) =
     Some (datetime_values lib (parse_time lib (parse_date lib (df_replace df))))"
  by (simp_all add: clean_frame_def get_col_coerce_numeric not_numeric get_col_alias_datetime
      get_col_derive_datetime)



section \<open>Assignment under a mask\<close>







lemma datetime_values_missing:
  "get_col ''Date'' df = None \<or> get_col ''Time'' df = None \<Longrightarrow>
   datetime_values lib df = replicate (n_rows df) NaT"
  by (auto simp: datetime_values_def split: option.splits)






text \<open>
  Claim C6. For every input table the cleaned table has the columns \<^verbatim>\<open>DateTime\<close> and
  \<^verbatim>\<open>Datetime\<close>, both hold the same cells, and when the input has no \<^verbatim>\<open>Date\<close> or no
  \<^verbatim>\<open>Time\<close> column every cell of both is absent.
\<close>

theorem datetime_alias_identical:
  "clean_data lib (Some df) = Some (clean_frame lib df)
   \<and> has_col ''DateTime'' (clean_frame lib df)
   \<and> has_col ''Datetime'' (clean_frame lib df)
   \<and> get_col ''DateTime'' (clean_frame lib df) = get_col ''Datetime'' (clean_frame lib df)
   \<and> (get_col ''Date'' df = None \<or> get_col ''Time'' df = None \<longrightarrow>
        get_col ''DateTime'' (clean_frame lib df) = Some (replicate (n_rows df) NaT)
      \<and> get_col ''Datetime'' (clean_frame lib df) = Some (replicate (n_rows df) NaT))"
proof -
  let ?m = "parse_time lib (parse_date lib (df_replace df))"
  have nm: "n_rows ?m = n_rows df"
    by (simp add: n_rows_parse_time n_rows_parse_date n_rows_df_replace)
  have miss: "datetime_values lib ?m = replicate (n_rows df) NaT"
    if "get_col ''Date'' df = None \<or> get_col ''Time'' df = None"
  proof -
    from that have "get_col ''Date'' ?m = None \<or> get_col ''Time'' ?m = None"
      by (auto simp: get_col_parse_time get_col_parse_date get_col_df_replace)
    from datetime_values_missing [OF this, of lib] show ?thesis by (simp add: nm)
  qed
  show ?thesis
    using miss by (simp add: has_col_get_col datetime_columns_clean_frame)
qed

theorem datetime_alias_identical_witness:
  "get_col ''Time'' \<lparr>n_rows = 2, cols = [(''Date'', [StrC ''2004-03-10'', StrC ''2004-03-11''])]\<rparr> = None
   \<and> get_col ''DateTime'' (clean_frame pandas_ref
         \<lparr>n_rows = 2, cols = [(''Date'', [StrC ''2004-03-10'', StrC ''2004-03-11''])]\<rparr>) = Some [NaT, NaT]
   \<and> get_col ''Datetime'' (clean_frame pandas_ref
         \<lparr>n_rows = 2, cols = [(''Date'', [StrC ''2004-03-10'', StrC ''2004-03-11''])]\<rparr>) = Some [NaT, NaT]"
proof -
  let ?df = "\<lparr>n_rows = 2, cols = [(''Date'', [StrC ''2004-03-10'', StrC ''2004-03-11''])]\<rparr>"
  have h: "get_col ''Time'' ?df = None" by (simp add: get_col_def)
  have r: "replicate (n_rows ?df) NaT = [NaT, NaT]" by (simp add: numeral_2_eq_2)
  from datetime_alias_identical [of pandas_ref ?df] h r show ?thesis by simp
qed






section \<open>The store\<close>

lemma assign_in_place_other:
  "a \<noteq> r \<Longrightarrow> objs (assign_in_place r f s) a = objs s a"
  by (simp add: assign_in_place_def split: option.splits)

lemma assign_in_place_self:
  "objs s r = Some df \<Longrightarrow> objs (assign_in_place r f s) r = Some (f df)"
  by (simp add: assign_in_place_def)

lemma fold_assign_other:
  "a \<noteq> r \<Longrightarrow> objs (fold (\<lambda>x. assign_in_place r (f x)) xs s) a = objs s a"
  by (induction xs arbitrary: s) (simp_all add: assign_in_place_other)

lemma fold_assign_self:
  "objs s r = Some df \<Longrightarrow>
   objs (fold (\<lambda>x. assign_in_place r (f x)) xs s) r = Some (fold f xs df)"
  by (induction xs arbitrary: s df) (simp_all add: assign_in_place_self)

text \<open>
  Claim C7. Run on a store of table objects, \<open>clean_data\<close> returns a reference that was
  not in use before the call, leaves every table that was in the store as it was, the
  argument among them, and the new object holds the cleaned table.
\<close>

theorem clean_data_leaves_input:
  assumes "store_ok s" and "objs s r = Some df"
  shows "\<exists>r' s'. clean_data_st lib (Some r) s = (Some r', s')
           \<and> objs s r' = None
           \<and> r' \<noteq> r
           \<and> (\<forall>a. objs s a \<noteq> None \<longrightarrow> objs s' a = objs s a)
           \<and> objs s' r = Some df
           \<and> objs s' r' = clean_data lib (Some df)"
proof -
  let ?c = "next_ref s"
  let ?s1 = "s\<lparr>objs := (objs s)(?c \<mapsto> df), next_ref := Suc ?c\<rparr>"
  let ?r' = "Suc ?c"
  let ?s2 = "?s1\<lparr>objs := (objs ?s1)(?r' \<mapsto> df_replace df), next_ref := Suc ?r'\<rparr>"
  let ?s3 = "assign_in_place ?r' (parse_date lib) ?s2"
  let ?s4 = "assign_in_place ?r' (parse_time lib) ?s3"
  let ?s5 = "assign_in_place ?r' (derive_datetime lib) ?s4"
  let ?s6 = "assign_in_place ?r' alias_datetime ?s5"
  let ?s7 = "fold (\<lambda>col. assign_in_place ?r' (coerce_column lib col)) numeric_columns ?s6"
  have run: "clean_data_st lib (Some r) s = (Some ?r', ?s7)"
    using assms(2) by (simp add: clean_data_st_def alloc_def Let_def)
  have fresh_c: "objs s ?c = None" and fresh_r: "objs s ?r' = None"
    using assms(1) by (simp_all add: store_ok_def)
  have ne: "?r' \<noteq> r" using fresh_r assms(2) by auto
  have other: "objs ?s7 a = objs s a" if "objs s a \<noteq> None" for a
  proof -
    from that fresh_c fresh_r have n1: "a \<noteq> ?c" and n2: "a \<noteq> ?r'" by auto
    have "objs ?s7 a = objs ?s6 a" using n2 by (rule fold_assign_other)
    also have "\<dots> = objs ?s2 a" using n2 by (simp add: assign_in_place_other)
    also have "\<dots> = objs s a" using n1 n2 by simp
    finally show ?thesis .
  qed
  have "objs ?s2 ?r' = Some (df_replace df)" by simp
  then have "objs ?s6 ?r' =
      Some (alias_datetime (derive_datetime lib (parse_time lib (parse_date lib (df_replace df)))))"
    by (simp add: assign_in_place_self)
  then have "objs ?s7 ?r' = Some (fold (coerce_column lib) numeric_columns
      (alias_datetime (derive_datetime lib (parse_time lib (parse_date lib (df_replace df))))))"
    by (rule fold_assign_self)
  then have res: "objs ?s7 ?r' = clean_data lib (Some df)"
    by (simp add: clean_frame_def coerce_numeric_def)
  have inp: "objs ?s7 r = Some df" using other [of r] assms(2) by simp
  from run fresh_r ne other res inp show ?thesis by blast
qed

theorem clean_data_leaves_input_witness:
  "store_ok ex_store
   \<and> objs ex_store 0 = Some \<lparr>n_rows = 1, cols = [(''T'', [StrC ''13,6''])]\<rparr>
   \<and> (\<exists>r' s'. clean_data_st pandas_ref (Some 0) ex_store = (Some r', s')
         \<and> r' \<noteq> 0
         \<and> objs s' 0 = Some \<lparr>n_rows = 1, cols = [(''T'', [StrC ''13,6''])]\<rparr>
         \<and> objs s' r' = Some \<lparr>n_rows = 1,
               cols = [(''T'', [FloatC (136 / 10)]), (''DateTime'', [NaT]), (''Datetime'', [NaT])]\<rparr>)"
proof -
  have ok: "store_ok ex_store" by (simp add: store_ok_def ex_store_def)
  have o: "objs ex_store 0 = Some \<lparr>n_rows = 1, cols = [(''T'', [StrC ''13,6''])]\<rparr>"
    by (simp add: ex_store_def)
  have v: "clean_data pandas_ref (Some \<lparr>n_rows = 1, cols = [(''T'', [StrC ''13,6''])]\<rparr>) =
      Some \<lparr>n_rows = 1,
            cols = [(''T'', [FloatC (136 / 10)]), (''DateTime'', [NaT]), (''Datetime'', [NaT])]\<rparr>"
    by code_simp
  from clean_data_leaves_input [OF ok o, of pandas_ref] v ok o show ?thesis
    by auto
qed

section \<open>Loading, and calls without a table\<close>

lemma load_data_cases:
  "load_data lib read_file path =
     (case read_csv lib read_file path of
        Inr df \<Rightarrow> ([], Inr (Some (dropna_all df)))
      | Inl e \<Rightarrow>
          (if is_Exception e
           then (case e of
                   FileNotFoundError m \<Rightarrow> ([''Error: Could not find file '' @ path], Inr None)
                 | _ \<Rightarrow> ([''Error loading data: '' @ exc_str e], Inr None))
           else ([], Inl e)))"
  by (simp add: load_data_def split: sum.splits py_exc.splits)

lemma load_data_raised:
  "read_csv lib read_file path = Inl e \<Longrightarrow> is_Exception e \<Longrightarrow>
   snd (load_data lib read_file path) = Inr None"
  by (simp add: load_data_cases split: py_exc.splits)

lemma read_csv_open_fails:
  "read_file path = Inl e \<Longrightarrow> read_csv lib read_file path = Inl e"
  by (simp add: read_csv_def)

text \<open>
  Claim C8, as amended. No exception that is an \<^verbatim>\<open>Exception\<close> leaves \<open>load_data\<close>: when
  opening or parsing the file raises one, the result is the value \<open>None\<close>, and \<open>None\<close> is
  returned in no other case. The failure need not concern the whole file: one record with
  more fields than expected makes the parse raise and the whole load is \<open>None\<close>. When the
  file is parsed, the table is returned without its empty columns.
\<close>

theorem load_data_failures_are_values:
  "(\<forall>e. snd (load_data lib read_file path) = Inl e \<longrightarrow> \<not> is_Exception e)
   \<and> (\<forall>e. read_file path = Inl e \<and> is_Exception e \<longrightarrow>
          snd (load_data lib read_file path) = Inr None)
   \<and> (\<forall>text header rows expected k seen.
          read_file path = Inr text \<and> csv_records lib text = header # rows
          \<and> bad_record (header # rows) = Some (expected, k, seen) \<longrightarrow>
          read_csv lib read_file path = Inl (ParserError expected (record_line lib text k) seen)
          \<and> snd (load_data lib read_file path) = Inr None)
   \<and> (\<forall>df. read_csv lib read_file path = Inr df \<longrightarrow>
          load_data lib read_file path = ([], Inr (Some (dropna_all df))))
   \<and> ((snd (load_data lib read_file path) = Inr None) =
        (\<exists>e. read_csv lib read_file path = Inl e \<and> is_Exception e))"
proof -
  have c1: "\<forall>e. snd (load_data lib read_file path) = Inl e \<longrightarrow> \<not> is_Exception e"
    by (auto simp: load_data_cases split: sum.splits py_exc.splits if_splits)
  have c2: "\<forall>e. read_file path = Inl e \<and> is_Exception e \<longrightarrow>
      snd (load_data lib read_file path) = Inr None"
    using load_data_raised read_csv_open_fails by blast
  have c3: "\<forall>text header rows expected k seen.
      read_file path = Inr text \<and> csv_records lib text = header # rows
      \<and> bad_record (header # rows) = Some (expected, k, seen) \<longrightarrow>
      read_csv lib read_file path = Inl (ParserError expected (record_line lib text k) seen)
      \<and> snd (load_data lib read_file path) = Inr None"
    by (auto simp: load_data_def read_csv_def)
  have c4: "\<forall>df. read_csv lib read_file path = Inr df \<longrightarrow>
      load_data lib read_file path = ([], Inr (Some (dropna_all df)))"
    by (simp add: load_data_def)
  have c5: "(snd (load_data lib read_file path) = Inr None) =
      (\<exists>e. read_csv lib read_file path = Inl e \<and> is_Exception e)"
    by (cases "read_csv lib read_file path")
       (auto simp: load_data_cases split: py_exc.splits)
  show ?thesis
    by (intro conjI) (rule c1, rule c2, rule c3, rule c4, rule c5)
qed

theorem load_data_failures_are_values_witness:
  "ex_files ''missing.csv'' = Inl (FileNotFoundError ''missing.csv'')
   \<and> is_Exception (FileNotFoundError ''missing.csv'')
   \<and> snd (load_data pandas_ref ex_files ''missing.csv'') = Inr None
   \<and> read_csv pandas_ref ex_files ''good.csv'' =
        Inr \<lparr>n_rows = 2,
             cols = [(''Date'', [StrC ''10/03/2004'', StrC ''10/03/2004'']),
                     (''Time'', [StrC ''18.00.00'', StrC ''19.00.00'']),
                     (''T'', [StrC ''13,6'', StrC ''bad'']),
                     (''Unnamed: 3'', [NaN, NaN])]\<rparr>
   \<and> load_data pandas_ref ex_files ''good.csv'' =
        ([], Inr (Some \<lparr>n_rows = 2,
             cols = [(''Date'', [StrC ''10/03/2004'', StrC ''10/03/2004'']),
                     (''Time'', [StrC ''18.00.00'', StrC ''19.00.00'']),
                     (''T'', [StrC ''13,6'', StrC ''bad''])]\<rparr>))"
proof -
  let ?df = "\<lparr>n_rows = 2,
             cols = [(''Date'', [StrC ''10/03/2004'', StrC ''10/03/2004'']),
                     (''Time'', [StrC ''18.00.00'', StrC ''19.00.00'']),
                     (''T'', [StrC ''13,6'', StrC ''bad'']),
                     (''Unnamed: 3'', [NaN, NaN])]\<rparr>"
  have w1: "ex_files ''missing.csv'' = Inl (FileNotFoundError ''missing.csv'')"
    by (simp add: ex_files_def)
  have w2: "read_csv pandas_ref ex_files ''good.csv'' = Inr ?df"
    by code_simp
  have d: "dropna_all ?df = \<lparr>n_rows = 2,
             cols = [(''Date'', [StrC ''10/03/2004'', StrC ''10/03/2004'']),
                     (''Time'', [StrC ''18.00.00'', StrC ''19.00.00'']),
                     (''T'', [StrC ''13,6'', StrC ''bad''])]\<rparr>"
    by (simp add: dropna_all_def notna_def)
  from load_data_failures_are_values [of pandas_ref ex_files "''missing.csv''"]
       load_data_failures_are_values [of pandas_ref ex_files "''good.csv''"] w1 w2 d
  show ?thesis by simp
qed

text \<open>
  Claim C8 as stated fails: the file \<^verbatim>\<open>long_record.csv\<close> is there and its header and first
  record are fine, but its second record has five fields where three are expected; the
  load returns \<open>None\<close> for this one record.
\<close>

theorem one_long_record_counterexample:
  "csv_records pandas_ref
     (''Date;Time;T'' @ [CHR 0x0A] @ ''10/03/2004;18.00.00;13,6'' @ [CHR 0x0A] @
      ''10/03/2004;19.00.00;13,3;;'' @ [CHR 0x0A])
   = [[''Date'', ''Time'', ''T''], [''10/03/2004'', ''18.00.00'', ''13,6''],
      [''10/03/2004'', ''19.00.00'', ''13,3'', [], []]]
   \<and> load_data pandas_ref ex_files ''long_record.csv'' =
       ([''Error loading data: Error tokenizing data. C error: Expected 3 fields in line 3, saw 5'' @
         [CHR 0x0A]], Inr None)"
  by code_simp

text \<open>
  Claim C10. Given no table, \<open>clean_data\<close>, \<open>filter_by_date_range\<close> and
  \<open>get_daily_averages\<close> return \<open>None\<close> and \<open>get_data_summary\<close> returns the empty mapping;
  none of them raises.
\<close>

theorem none_is_tolerated:
  "clean_data lib None = None
   \<and> filter_by_date_range lib None start_date end_date = Inr None
   \<and> get_daily_averages lib None = Inr None
   \<and> get_data_summary lib None = Inr Map.empty"
  by (simp add: filter_by_date_range_def get_daily_averages_def get_data_summary_def)

theorem none_is_tolerated_witness:
  "clean_data pandas_ref None = None
   \<and> filter_by_date_range pandas_ref None (Some ''2004-03-10'') None = Inr None
   \<and> get_daily_averages pandas_ref None = Inr None
   \<and> (\<exists>m. get_data_summary pandas_ref None = Inr m \<and> dom m = {})"
  using none_is_tolerated [of pandas_ref "Some ''2004-03-10''" None] by simp

section \<open>The date-range filter\<close>

lemma select_cells_simps:
  "select_cells [] xs = []"
  "select_cells ms [] = []"
  "select_cells (m # ms) (x # xs) = (if m then x # select_cells ms xs else select_cells ms xs)"
  by (simp_all add: select_cells_def)

lemma select_twice:
  "length xs = length ds \<Longrightarrow>
   select_cells (map q (select_cells (map p ds) ds)) (select_cells (map p ds) xs) =
     select_cells (map (\<lambda>c. p c \<and> q c) ds) xs"
  by (induction xs ds rule: list_induct2) (simp_all add: select_cells_simps)

lemma count_twice:
  "length (filter (\<lambda>m. m) (map q (select_cells (map p ds) ds))) =
   length (filter (\<lambda>m. m) (map (\<lambda>c. p c \<and> q c) ds))"
  by (induction ds) (simp_all add: select_cells_simps)

lemma get_col_select_rows:
  "get_col n (select_rows msk df) = map_option (select_cells msk) (get_col n df)"
  by (simp add: get_col_def select_rows_def map_of_map_snd case_prod_unfold)

lemma select_rows_twice:
  assumes "wf_frame df" and "length ds = n_rows df"
  shows "select_rows (map q (select_cells (map p ds) ds)) (select_rows (map p ds) df) =
           select_rows (map (\<lambda>c. p c \<and> q c) ds) df"
proof -
  have "\<And>c. c \<in> set (cols df) \<Longrightarrow> length (snd c) = length ds"
    using assms by (simp add: wf_frame_def list_all_iff)
  then show ?thesis
    using count_twice [of q p ds]
    by (simp add: select_rows_def case_prod_unfold select_twice)
qed

lemma in_range_simps:
  "in_range lo hi (TsC d) =
     ((case lo of None \<Rightarrow> True | Some l \<Rightarrow> ts_le l d) \<and>
      (case hi of None \<Rightarrow> True | Some h \<Rightarrow> ts_le d h))"
  "in_range lo hi NaN = False"
  "in_range lo hi NaT = False"
  by (simp_all add: in_range_def)

lemma compare_ge:
  "clean_dates ds \<Longrightarrow> compare_col (date_ge (Some lo)) ds = Inr (map (in_range (Some lo) None) ds)"
proof (induction ds)
  case Nil
  then show ?case by simp
next
  case (Cons c cs)
  then have cs: "clean_dates cs" and c: "isna c \<or> (\<exists>d. c = TsC d)"
    by (simp_all add: clean_dates_def)
  note ih = Cons.IH [OF cs]
  from c show ?case by (cases c) (simp_all add: ih in_range_simps)
qed

lemma compare_le:
  "clean_dates ds \<Longrightarrow> compare_col (date_le (Some hi)) ds = Inr (map (in_range None (Some hi)) ds)"
proof (induction ds)
  case Nil
  then show ?case by simp
next
  case (Cons c cs)
  then have cs: "clean_dates cs" and c: "isna c \<or> (\<exists>d. c = TsC d)"
    by (simp_all add: clean_dates_def)
  note ih = Cons.IH [OF cs]
  from c show ?case by (cases c) (simp_all add: ih in_range_simps)
qed

lemma clean_dates_select: "clean_dates ds \<Longrightarrow> clean_dates (select_cells msk ds)"
  by (auto simp: clean_dates_def select_cells_def dest: set_zip_rightD)

lemma in_range_both:
  "(in_range (Some lo) None c \<and> in_range None (Some hi) c) = in_range (Some lo) (Some hi) c"
  by (cases c) (simp_all add: in_range_def)

lemma ts_le_refl: "ts_le a a"
  by (simp add: ts_le_def)

lemma filter_step_absent:
  "filter_step lib cmp None df = Inr df" "filter_step lib cmp (Some []) df = Inr df"
  by (simp_all add: filter_step_def)

lemma filter_step_ge:
  assumes "get_col ''Date'' df = Some ds" and "clean_dates ds"
    and "s \<noteq> []" and "to_datetime_scalar lib s = Inr (Some lo)"
  shows "filter_step lib date_ge (Some s) df = Inr (select_rows (map (in_range (Some lo) None) ds) df)"
  using assms by (simp add: filter_step_def compare_ge)

lemma filter_step_le:
  assumes "get_col ''Date'' df = Some ds" and "clean_dates ds"
    and "e \<noteq> []" and "to_datetime_scalar lib e = Inr (Some hi)"
  shows "filter_step lib date_le (Some e) df = Inr (select_rows (map (in_range None (Some hi)) ds) df)"
  using assms by (simp add: filter_step_def compare_le)

text \<open>
  Claim C9, as amended. On a well-formed cleaned table, with bounds that parse to
  timestamps, \<open>filter_by_date_range\<close> keeps exactly the records whose date lies in the
  closed range of the bounds given: both comparisons are not strict, a missing bound does
  not constrain its side, and without bounds the table is returned unchanged. A record
  whose date equals a bound is kept when the other bound is missing, and with both bounds
  it is kept exactly when the start bound is not after the end bound.
\<close>

theorem filter_keeps_closed_range:
  assumes "wf_frame df" and "get_col ''Date'' df = Some ds" and "clean_dates ds"
    and "s \<noteq> []" and "to_datetime_scalar lib s = Inr (Some lo)"
    and "e \<noteq> []" and "to_datetime_scalar lib e = Inr (Some hi)"
  shows "filter_by_date_range lib (Some df) (Some s) (Some e) =
           Inr (Some (select_rows (map (in_range (Some lo) (Some hi)) ds) df))
       \<and> filter_by_date_range lib (Some df) (Some s) None =
           Inr (Some (select_rows (map (in_range (Some lo) None) ds) df))
       \<and> filter_by_date_range lib (Some df) None (Some e) =
           Inr (Some (select_rows (map (in_range None (Some hi)) ds) df))
       \<and> filter_by_date_range lib (Some df) None None = Inr (Some df)
       \<and> (\<forall>d. in_range (Some lo) (Some hi) (TsC d) = (ts_le lo d \<and> ts_le d hi))
       \<and> (\<forall>d. in_range (Some lo) None (TsC d) = ts_le lo d)
       \<and> (\<forall>d. in_range None (Some hi) (TsC d) = ts_le d hi)
       \<and> in_range (Some lo) None (TsC lo)
       \<and> in_range None (Some hi) (TsC hi)
       \<and> in_range (Some lo) (Some hi) (TsC lo) = ts_le lo hi
       \<and> in_range (Some lo) (Some hi) (TsC hi) = ts_le lo hi"
proof -
  let ?m1 = "map (in_range (Some lo) None) ds"
  let ?df1 = "select_rows ?m1 df"
  have len: "length ds = n_rows df" using assms(1,2) by (rule wf_frame_length)
  have st1: "filter_step lib date_ge (Some s) df = Inr ?df1"
    using assms(2,3,4,5) by (rule filter_step_ge)
  have g1: "get_col ''Date'' ?df1 = Some (select_cells ?m1 ds)"
    using assms(2) by (simp add: get_col_select_rows)
  have cd1: "clean_dates (select_cells ?m1 ds)"
    using assms(3) by (rule clean_dates_select)
  have st2: "filter_step lib date_le (Some e) ?df1 =
      Inr (select_rows (map (in_range None (Some hi)) (select_cells ?m1 ds)) ?df1)"
    using g1 cd1 assms(6,7) by (rule filter_step_le)
  have twice: "select_rows (map (in_range None (Some hi)) (select_cells ?m1 ds)) ?df1 =
      select_rows (map (in_range (Some lo) (Some hi)) ds) df"
    using select_rows_twice [OF assms(1) len, of "in_range None (Some hi)" "in_range (Some lo) None"]
    by (simp add: in_range_both)
  have c1: "filter_by_date_range lib (Some df) (Some s) (Some e) =
           Inr (Some (select_rows (map (in_range (Some lo) (Some hi)) ds) df))"
    by (simp add: filter_by_date_range_def st1 st2 twice)
  have c2: "filter_by_date_range lib (Some df) (Some s) None = Inr (Some ?df1)"
    by (simp add: filter_by_date_range_def st1 filter_step_absent)
  have c3: "filter_by_date_range lib (Some df) None (Some e) =
           Inr (Some (select_rows (map (in_range None (Some hi)) ds) df))"
    using filter_step_le [OF assms(2,3,6,7)]
    by (simp add: filter_by_date_range_def filter_step_absent)
  have c4: "filter_by_date_range lib (Some df) None None = Inr (Some df)"
    by (simp add: filter_by_date_range_def filter_step_absent)
  show ?thesis
    by (intro conjI) (rule c1, rule c2, rule c3, rule c4,
        simp_all add: in_range_simps ts_le_refl)
qed

text \<open>
  Claim C9 as stated fails when the start bound is after the end bound: the record dated
  2004-03-11 equals the start bound and is not retained.
\<close>

theorem filter_inverted_bounds_counterexample:
  "to_datetime_scalar pandas_ref ''2004-03-11'' =
     Inr (Some \<lparr>year = 2004, month = 3, day = 11,
                clock = \<lparr>hour = 0, minute = 0, second = 0, microsecond = 0\<rparr>\<rparr>)
   \<and> filter_by_date_range pandas_ref
        (Some \<lparr>n_rows = 1,
               cols = [(''Date'', [TsC \<lparr>year = 2004, month = 3, day = 11,
                          clock = \<lparr>hour = 0, minute = 0, second = 0, microsecond = 0\<rparr>\<rparr>])]\<rparr>)
        (Some ''2004-03-11'') (Some ''2004-03-10'')
     = Inr (Some \<lparr>n_rows = 0, cols = [(''Date'', [])]\<rparr>)"
  by code_simp

theorem filter_keeps_closed_range_witness:
  "wf_frame ex_clean
   \<and> get_col ''Date'' ex_clean = Some [TsC (march_2004 9), TsC (march_2004 10), NaT, TsC (march_2004 11)]
   \<and> clean_dates [TsC (march_2004 9), TsC (march_2004 10), NaT, TsC (march_2004 11)]
   \<and> ''2004-03-10'' \<noteq> []
   \<and> to_datetime_scalar pandas_ref ''2004-03-10'' = Inr (Some (march_2004 10))
   \<and> ''2004-03-11'' \<noteq> []
   \<and> to_datetime_scalar pandas_ref ''2004-03-11'' = Inr (Some (march_2004 11))
   \<and> filter_by_date_range pandas_ref (Some ex_clean) (Some ''2004-03-10'') (Some ''2004-03-11'') =
        Inr (Some \<lparr>n_rows = 2,
                   cols = [(''Date'', [TsC (march_2004 10), TsC (march_2004 11)]),
                           (''T'', [FloatC 2, FloatC 4])]\<rparr>)"
proof -
  let ?ds = "[TsC (march_2004 9), TsC (march_2004 10), NaT, TsC (march_2004 11)]"
  have h1: "wf_frame ex_clean" by (simp add: wf_frame_def ex_clean_def)
  have h2: "get_col ''Date'' ex_clean = Some ?ds" by (simp add: get_col_def ex_clean_def)
  have h3: "clean_dates ?ds" by (simp add: clean_dates_def)
  have h4: "''2004-03-10'' \<noteq> []" by simp
  have h5: "to_datetime_scalar pandas_ref ''2004-03-10'' = Inr (Some (march_2004 10))" by code_simp
  have h6: "''2004-03-11'' \<noteq> []" by simp
  have h7: "to_datetime_scalar pandas_ref ''2004-03-11'' = Inr (Some (march_2004 11))" by code_simp
  have "filter_by_date_range pandas_ref (Some ex_clean) (Some ''2004-03-10'') (Some ''2004-03-11'') =
        Inr (Some (select_rows (map (in_range (Some (march_2004 10)) (Some (march_2004 11))) ?ds) ex_clean))"
    using filter_keeps_closed_range [OF h1 h2 h3 h4 h5 h6 h7] by (rule conjunct1)
  also have "select_rows (map (in_range (Some (march_2004 10)) (Some (march_2004 11))) ?ds) ex_clean =
      \<lparr>n_rows = 2,
       cols = [(''Date'', [TsC (march_2004 10), TsC (march_2004 11)]),
               (''T'', [FloatC 2, FloatC 4])]\<rparr>"
    by code_simp
  finally show ?thesis using h1 h2 h3 h5 h7 by simp
qed

end
